theory Spec2Isabelle
  imports Main
begin

section \<open>Data model (Header.tsx, lines 8-22)\<close>

text \<open>
  The \<^verbatim>\<open>Notification\<close> interface. The JavaScript field \<^verbatim>\<open>id\<close> is written
  \<open>id_notif\<close>, since \<open>id\<close> is the identity function of HOL. Identifiers are integers.
\<close>

record notification =
  id_notif :: int
  message :: string
  grievance_id :: int
  is_read :: bool
  created_at :: string

text \<open>
  A row of the \<^verbatim>\<open>notifications\<close> table of the data store: the columns of a notification
  and the \<^verbatim>\<open>user_id\<close> column that the query and the realtime filter compare with
  \<^verbatim>\<open>session.user.id\<close>. The casts \<^verbatim>\<open>payload.new as Notification\<close> and
  \<^verbatim>\<open>data\<close> to \<^verbatim>\<open>Notification[]\<close> are \<open>notification.truncate\<close>.
\<close>

record db_row = notification +
  user_id :: string

record auth_user =
  id_user :: string

record session =
  user :: auth_user

text \<open>The \<^verbatim>\<open>{ data, error }\<close> object that a call of the data store resolves to.\<close>

record 'a response =
  data :: "'a option"
  error :: "string option"

datatype role = User | Employee | Admin

text \<open>
  \<^verbatim>\<open>HeaderProps\<close>. An optional prop is an \<open>option\<close>; the two callbacks act on the
  state \<open>'p\<close> of the parent component that supplies them.
\<close>

record 'p header_props =
  role :: role
  externalNotifications :: "notification list option"
  externalToggleNotifications :: "('p \<Rightarrow> 'p) option"
  externalMarkNotificationAsRead :: "(int \<Rightarrow> 'p \<Rightarrow> 'p) option"
  externalShowNotifications :: "bool option"

section \<open>The environment: realtime channels, pending calls, router, console\<close>

text \<open>The channel built at lines 47-61: its name and the \<^verbatim>\<open>postgres_changes\<close> options.\<close>

record channel =
  channel_name :: string
  on_event :: string
  schema :: string
  table :: string
  filter_opt :: string

text \<open>The closure \<^verbatim>\<open>() => { supabase.removeChannel(channel) }\<close> of lines 65-67.\<close>

datatype cleanup = Cleanup_removeChannel channel

text \<open>
  An asynchronous function suspended at an \<^verbatim>\<open>await\<close>. \<^verbatim>\<open>fetchNotifications\<close> is
  only called from \<^verbatim>\<open>initialize\<close> (line 63), whose frame holds the channel.
\<close>

datatype task =
    Initialize_getSession
  | FetchNotifications_getSession channel
  | FetchNotifications_select string channel
  | MarkAsRead_update int
  | Logout_signOut

text \<open>The calls made on the supabase client, in order.\<close>

datatype call =
    Auth_getSession
  | Channel_subscribe channel
  | Select_notifications string
  | Update_is_read int
  | Auth_signOut
  | RemoveChannel channel

datatype router_call = Push string | Refresh

text \<open>
  The component instance together with what it acts on. \<open>effect_cleanup\<close> is the function
  that React keeps from the last run of the effect; \<open>initialize_results\<close> lists the values
  that the promises of \<^verbatim>\<open>initialize()\<close> resolved to.
\<close>

record 'p world =
  props :: "'p header_props"
  mounted :: bool
  localNotifications :: "notification list"
  localShowNotifications :: bool
  effect_cleanup :: "cleanup option"
  initialize_results :: "cleanup option list"
  tasks :: "task list"
  channels :: "channel list"
  calls :: "call list"
  console :: "(string \<times> string) list"
  router :: "router_call list"
  parent :: 'p

section \<open>The query of fetchNotifications (lines 80-86)\<close>

text \<open>
  The query builder, read on the contents of the \<^verbatim>\<open>notifications\<close> table.
  \<^verbatim>\<open>select('*')\<close> returns whole rows. The type of the \<^verbatim>\<open>created_at\<close> column is
  declared in the database schema; the order the store gives to its values is the
  parameter \<open>ts\<close>, the instant a timestamp string denotes.
\<close>

definition eq_col :: "(db_row \<Rightarrow> 'a) \<Rightarrow> 'a \<Rightarrow> db_row list \<Rightarrow> db_row list" where
  "eq_col c v rows = filter (\<lambda>r. c r = v) rows"

definition order_desc :: "(db_row \<Rightarrow> nat) \<Rightarrow> db_row list \<Rightarrow> db_row list" where
  "order_desc k rows = rev (sort_key k rows)"

definition limit :: "nat \<Rightarrow> db_row list \<Rightarrow> db_row list" where
  "limit n rows = take n rows"

definition notifications_query :: "(string \<Rightarrow> nat) \<Rightarrow> string \<Rightarrow> db_row list \<Rightarrow> db_row list" where
  "notifications_query ts uid tbl =
     limit 10 (order_desc (\<lambda>r. ts (created_at r))
       (eq_col is_read False (eq_col user_id uid tbl)))"

text \<open>What the select call resolves to: an error, or the rows of the query.\<close>

definition select_response :: "string option \<Rightarrow> db_row list \<Rightarrow> notification list response" where
  "select_response err rows =
     (case err of
        Some e \<Rightarrow> \<lparr>data = None, error = Some e\<rparr>
      | None \<Rightarrow> \<lparr>data = Some (map notification.truncate rows), error = None\<rparr>)"

section \<open>State setters and client calls\<close>

text \<open>React drops a state update of a component that is no longer mounted.\<close>

definition setLocalNotifications ::
  "(notification list \<Rightarrow> notification list) \<Rightarrow> 'p world \<Rightarrow> 'p world" where
  "setLocalNotifications f w =
     (if mounted w then w\<lparr>localNotifications := f (localNotifications w)\<rparr> else w)"

definition setLocalShowNotifications :: "bool \<Rightarrow> 'p world \<Rightarrow> 'p world" where
  "setLocalShowNotifications b w =
     (if mounted w then w\<lparr>localShowNotifications := b\<rparr> else w)"

definition await :: "task \<Rightarrow> call \<Rightarrow> 'p world \<Rightarrow> 'p world" where
  "await t c w = w\<lparr>tasks := tasks w @ [t], calls := calls w @ [c]\<rparr>"

definition subscribe :: "channel \<Rightarrow> 'p world \<Rightarrow> 'p world" where
  "subscribe ch w = w\<lparr>channels := channels w @ [ch], calls := calls w @ [Channel_subscribe ch]\<rparr>"

definition removeChannel :: "channel \<Rightarrow> 'p world \<Rightarrow> 'p world" where
  "removeChannel ch w =
     w\<lparr>channels := remove1 ch (channels w), calls := calls w @ [RemoveChannel ch]\<rparr>"

definition console_error :: "string \<Rightarrow> string \<Rightarrow> 'p world \<Rightarrow> 'p world" where
  "console_error msg e w = w\<lparr>console := console w @ [(msg, e)]\<rparr>"

section \<open>The render (lines 36-37, 155-159)\<close>

definition notifications :: "'p world \<Rightarrow> notification list" where
  "notifications w =
     (case externalNotifications (props w) of Some l \<Rightarrow> l | None \<Rightarrow> localNotifications w)"

definition showNotifications :: "'p world \<Rightarrow> bool" where
  "showNotifications w =
     (case externalShowNotifications (props w) of Some b \<Rightarrow> b | None \<Rightarrow> localShowNotifications w)"

text \<open>The badge: absent when the list is empty, else its length.\<close>

definition badge :: "'p world \<Rightarrow> nat option" where
  "badge w = (if length (notifications w) > 0 then Some (length (notifications w)) else None)"

section \<open>fetchNotifications (lines 75-94)\<close>

definition fetchNotifications :: "channel \<Rightarrow> 'p world \<Rightarrow> 'p world" where
  "fetchNotifications ch w = await (FetchNotifications_getSession ch) Auth_getSession w"

text \<open>
  The promise of \<^verbatim>\<open>initialize()\<close> resolves: with the closure of lines 65-67 once
  \<^verbatim>\<open>await fetchNotifications()\<close> is over, with \<^verbatim>\<open>undefined\<close> when there is no session.
\<close>

definition initialize_return :: "cleanup option \<Rightarrow> 'p world \<Rightarrow> 'p world" where
  "initialize_return c w = w\<lparr>initialize_results := initialize_results w @ [c]\<rparr>"

definition fetchNotifications_session :: "session option \<Rightarrow> channel \<Rightarrow> 'p world \<Rightarrow> 'p world" where
  "fetchNotifications_session so ch w =
     (case so of
        None \<Rightarrow> initialize_return (Some (Cleanup_removeChannel ch)) w
      | Some s \<Rightarrow>
          await (FetchNotifications_select (id_user (user s)) ch)
                (Select_notifications (id_user (user s))) w)"

definition fetchNotifications_select ::
  "notification list response \<Rightarrow> channel \<Rightarrow> 'p world \<Rightarrow> 'p world" where
  "fetchNotifications_select r ch w =
     initialize_return (Some (Cleanup_removeChannel ch))
       (case error r of
          Some e \<Rightarrow> console_error ''Error fetching notifications:'' e w
        | None \<Rightarrow>
            setLocalNotifications (\<lambda>_. case data r of None \<Rightarrow> [] | Some d \<Rightarrow> d) w)"

section \<open>The effect (lines 39-73)\<close>

definition initialize :: "'p world \<Rightarrow> 'p world" where
  "initialize w = await Initialize_getSession Auth_getSession w"

definition notifications_channel :: "session \<Rightarrow> channel" where
  "notifications_channel s =
     \<lparr>channel_name = ''notifications'', on_event = ''INSERT'', schema = ''public'',
      table = ''notifications'', filter_opt = ''user_id=eq.'' @ id_user (user s)\<rparr>"

definition initialize_session :: "session option \<Rightarrow> 'p world \<Rightarrow> 'p world" where
  "initialize_session so w =
     (case so of
        None \<Rightarrow> initialize_return None w
      | Some s \<Rightarrow>
          fetchNotifications (notifications_channel s) (subscribe (notifications_channel s) w))"

text \<open>The callback of the channel (lines 57-59).\<close>

definition on_insert :: "db_row \<Rightarrow> 'p world \<Rightarrow> 'p world" where
  "on_insert payload_new w =
     setLocalNotifications (\<lambda>prev. notification.truncate payload_new # prev) w"

text \<open>
  The function passed to \<^verbatim>\<open>useEffect\<close>: it calls \<^verbatim>\<open>initialize()\<close> as a statement
  and has no \<^verbatim>\<open>return\<close> of its own, so what it hands to React is \<^verbatim>\<open>undefined\<close>.
\<close>

definition useEffect_callback :: "'p header_props \<Rightarrow> 'p world \<Rightarrow> cleanup option \<times> 'p world" where
  "useEffect_callback p w =
     (if externalNotifications p = None then (None, initialize w) else (None, w))"

section \<open>React: mount, re-render, unmount\<close>

definition run_effect :: "'p header_props \<Rightarrow> 'p world \<Rightarrow> 'p world" where
  "run_effect p w = (case useEffect_callback p w of (c, w') \<Rightarrow> w'\<lparr>effect_cleanup := c\<rparr>)"

definition run_cleanup :: "'p world \<Rightarrow> 'p world" where
  "run_cleanup w =
     (case effect_cleanup w of
        None \<Rightarrow> w
      | Some (Cleanup_removeChannel ch) \<Rightarrow> removeChannel ch w)"

text \<open>The first render (the initial values of \<^verbatim>\<open>useState\<close>, lines 32-33) and its effect.\<close>

definition first_render :: "'p header_props \<Rightarrow> 'p \<Rightarrow> 'p world" where
  "first_render p par =
     \<lparr>props = p, mounted = True, localNotifications = [], localShowNotifications = False,
      effect_cleanup = None, initialize_results = [], tasks = [], channels = [], calls = [],
      console = [], router = [], parent = par\<rparr>"

definition mount :: "'p header_props \<Rightarrow> 'p \<Rightarrow> 'p world" where
  "mount p par = run_effect p (first_render p par)"

text \<open>
  A render with new props. The dependency list is \<^verbatim>\<open>[externalNotifications]\<close>: when it
  changed, React runs the kept cleanup and then the effect again. React compares the
  arrays by identity; a new array with the same entries re-runs an effect that does
  nothing, the list being supplied, so comparing the entries gives the same states.
\<close>

definition rerender :: "'p header_props \<Rightarrow> 'p world \<Rightarrow> 'p world" where
  "rerender p w =
     (if externalNotifications p \<noteq> externalNotifications (props w)
      then run_effect p ((run_cleanup w)\<lparr>props := p\<rparr>)
      else w\<lparr>props := p\<rparr>)"

definition unmount :: "'p world \<Rightarrow> 'p world" where
  "unmount w = (run_cleanup w)\<lparr>mounted := False, effect_cleanup := None\<rparr>"

section \<open>The handlers (lines 96-131)\<close>

definition handleMarkNotificationAsRead :: "int \<Rightarrow> 'p world \<Rightarrow> 'p world" where
  "handleMarkNotificationAsRead notificationId w =
     (case externalMarkNotificationAsRead (props w) of
        Some f \<Rightarrow> w\<lparr>parent := f notificationId (parent w)\<rparr>
      | None \<Rightarrow> await (MarkAsRead_update notificationId) (Update_is_read notificationId) w)"

definition handleMarkNotificationAsRead_update :: "string option \<Rightarrow> int \<Rightarrow> 'p world \<Rightarrow> 'p world" where
  "handleMarkNotificationAsRead_update err notificationId w =
     (case err of
        Some e \<Rightarrow> console_error ''Error marking notification as read:'' e w
      | None \<Rightarrow>
          setLocalNotifications (filter (\<lambda>notif. id_notif notif \<noteq> notificationId)) w)"

definition handleLogout :: "'p world \<Rightarrow> 'p world" where
  "handleLogout w = await Logout_signOut Auth_signOut w"

definition handleLogout_signOut :: "string option \<Rightarrow> 'p world \<Rightarrow> 'p world" where
  "handleLogout_signOut err w =
     (let w1 = (case err of Some e \<Rightarrow> console_error ''Logout error:'' e w | None \<Rightarrow> w)
      in w1\<lparr>router := router w1 @ [Push ''/'', Refresh]\<rparr>)"

definition handleToggleNotifications :: "'p world \<Rightarrow> 'p world" where
  "handleToggleNotifications w =
     (case externalToggleNotifications (props w) of
        Some f \<Rightarrow> w\<lparr>parent := f (parent w)\<rparr>
      | None \<Rightarrow> setLocalShowNotifications (\<not> localShowNotifications w) w)"

section \<open>Events\<close>

text \<open>
  What a suspended call resolves to. A select carries the error of the store, if any, and
  the contents of the table when the store ran the query.
\<close>

datatype reply =
    Reply_session "session option"
  | Reply_select "string option" "db_row list"
  | Reply_update "string option"
  | Reply_signOut "string option"

datatype 'p event =
    Rerender "'p header_props"
  | Unmount
  | Click_bell
  | Click_notification int
  | Click_logout
  | Realtime_insert channel db_row
  | Resolved task reply

fun resume :: "(string \<Rightarrow> nat) \<Rightarrow> task \<Rightarrow> reply \<Rightarrow> 'p world \<Rightarrow> 'p world option" where
  "resume ts Initialize_getSession (Reply_session so) w = Some (initialize_session so w)"
| "resume ts (FetchNotifications_getSession ch) (Reply_session so) w =
     Some (fetchNotifications_session so ch w)"
| "resume ts (FetchNotifications_select uid ch) (Reply_select err tbl) w =
     Some (fetchNotifications_select (select_response err (notifications_query ts uid tbl)) ch w)"
| "resume ts (MarkAsRead_update i) (Reply_update err) w =
     Some (handleMarkNotificationAsRead_update err i w)"
| "resume ts Logout_signOut (Reply_signOut err) w = Some (handleLogout_signOut err w)"
| "resume ts _ _ w = None"

text \<open>
  One event. A click needs the element on the screen: the component mounted and, for a
  notification, the dropdown open with an entry of that id. The realtime server sends an
  inserted row to an open channel whose filter the row matches. A reply needs its call
  pending.
\<close>

fun step :: "(string \<Rightarrow> nat) \<Rightarrow> 'p event \<Rightarrow> 'p world \<Rightarrow> 'p world option" where
  "step ts (Rerender p) w = (if mounted w then Some (rerender p w) else None)"
| "step ts Unmount w = (if mounted w then Some (unmount w) else None)"
| "step ts Click_bell w = (if mounted w then Some (handleToggleNotifications w) else None)"
| "step ts (Click_notification i) w =
     (if mounted w \<and> showNotifications w \<and> i \<in> set (map id_notif (notifications w))
      then Some (handleMarkNotificationAsRead i w) else None)"
| "step ts Click_logout w = (if mounted w then Some (handleLogout w) else None)"
| "step ts (Realtime_insert ch row) w =
     (if ch \<in> set (channels w) \<and> filter_opt ch = ''user_id=eq.'' @ user_id row
      then Some (on_insert row w) else None)"
| "step ts (Resolved t r) w =
     (if t \<in> set (tasks w) then resume ts t r (w\<lparr>tasks := remove1 t (tasks w)\<rparr>) else None)"

fun run :: "(string \<Rightarrow> nat) \<Rightarrow> 'p event list \<Rightarrow> 'p world \<Rightarrow> 'p world option" where
  "run ts [] w = Some w"
| "run ts (e # es) w = (case step ts e w of None \<Rightarrow> None | Some w' \<Rightarrow> run ts es w')"

section \<open>Predicates on states, events and calls\<close>

definition unread :: "notification \<Rightarrow> bool" where
  "unread n = (\<not> is_read n)"

text \<open>An event that is not the delivery of a row already marked as read.\<close>

fun unread_insert :: "'p event \<Rightarrow> bool" where
  "unread_insert (Realtime_insert ch row) = (\<not> is_read row)"
| "unread_insert _ = True"

text \<open>The calls of the notification synchronisation: session, subscription, select.\<close>

fun fetch_or_subscribe :: "call \<Rightarrow> bool" where
  "fetch_or_subscribe Auth_getSession = True"
| "fetch_or_subscribe (Channel_subscribe ch) = True"
| "fetch_or_subscribe (Select_notifications uid) = True"
| "fetch_or_subscribe (Update_is_read i) = False"
| "fetch_or_subscribe Auth_signOut = False"
| "fetch_or_subscribe (RemoveChannel ch) = False"

fun sync_task :: "task \<Rightarrow> bool" where
  "sync_task Initialize_getSession = True"
| "sync_task (FetchNotifications_getSession ch) = True"
| "sync_task (FetchNotifications_select uid ch) = True"
| "sync_task (MarkAsRead_update i) = False"
| "sync_task Logout_signOut = False"

fun is_removeChannel :: "call \<Rightarrow> bool" where
  "is_removeChannel (RemoveChannel ch) = True"
| "is_removeChannel _ = False"

text \<open>An event that keeps the external notification list supplied.\<close>

fun list_supplied :: "'p event \<Rightarrow> bool" where
  "list_supplied (Rerender p) = (externalNotifications p \<noteq> None)"
| "list_supplied _ = True"

definition display_only :: "'p world \<Rightarrow> bool" where
  "display_only w =
     (externalNotifications (props w) \<noteq> None \<and> channels w = [] \<and>
      \<not> list_ex fetch_or_subscribe (calls w) \<and> \<not> list_ex sync_task (tasks w))"

section \<open>Concrete sessions, rows, props and runs\<close>

definition demo_session :: session where
  "demo_session = \<lparr>user = \<lparr>id_user = ''u1''\<rparr>\<rparr>"

definition demo_channel :: channel where
  "demo_channel = notifications_channel demo_session"

definition demo_row :: db_row where
  "demo_row = \<lparr>id_notif = 5, message = ''assigned'', grievance_id = 1, is_read = False,
     created_at = ''2024-01-01'', user_id = ''u1''\<rparr>"

definition demo_read_row :: db_row where
  "demo_read_row = \<lparr>id_notif = 6, message = ''closed'', grievance_id = 2, is_read = True,
     created_at = ''2024-01-02'', user_id = ''u1''\<rparr>"

definition demo_late_row :: db_row where
  "demo_late_row = \<lparr>id_notif = 7, message = ''reopened'', grievance_id = 2, is_read = False,
     created_at = ''2024-01-03'', user_id = ''u1''\<rparr>"

definition demo_other_row :: db_row where
  "demo_other_row = \<lparr>id_notif = 8, message = ''assigned'', grievance_id = 3, is_read = False,
     created_at = ''2024-01-04'', user_id = ''u2''\<rparr>"

text \<open>The instants of the timestamps of these rows: the day of January 2024.\<close>

definition demo_instant :: "string \<Rightarrow> nat" where
  "demo_instant s =
     (if s = ''2024-01-01'' then 1 else if s = ''2024-01-02'' then 2
      else if s = ''2024-01-03'' then 3 else if s = ''2024-01-04'' then 4 else 0)"

text \<open>No notification prop; only handlers and the flag; only the list; only the flag.\<close>

definition local_props :: "unit header_props" where
  "local_props = \<lparr>role = User, externalNotifications = None, externalToggleNotifications = None,
     externalMarkNotificationAsRead = None, externalShowNotifications = None\<rparr>"

definition handlers_only_props :: "unit header_props" where
  "handlers_only_props = \<lparr>role = User, externalNotifications = None,
     externalToggleNotifications = Some id,
     externalMarkNotificationAsRead = Some (\<lambda>notificationId. id),
     externalShowNotifications = Some False\<rparr>"

definition list_only_props :: "unit header_props" where
  "list_only_props = \<lparr>role = Employee, externalNotifications = Some [],
     externalToggleNotifications = None, externalMarkNotificationAsRead = None,
     externalShowNotifications = None\<rparr>"

definition flag_only_props :: "unit header_props" where
  "flag_only_props = \<lparr>role = Admin, externalNotifications = None,
     externalToggleNotifications = None, externalMarkNotificationAsRead = None,
     externalShowNotifications = Some True\<rparr>"

text \<open>Both calls of \<^verbatim>\<open>getSession\<close> resolve with the session: the select is pending.\<close>

definition session_events :: "unit event list" where
  "session_events =
     [Resolved Initialize_getSession (Reply_session (Some demo_session)),
      Resolved (FetchNotifications_getSession demo_channel) (Reply_session (Some demo_session))]"

definition fetch_pending_world :: "unit world" where
  "fetch_pending_world = the (run demo_instant session_events (mount local_props ()))"

text \<open>The fetch returns the unread row 5, then the realtime server delivers row 7.\<close>

definition two_unread_events :: "unit event list" where
  "two_unread_events = session_events @
     [Resolved (FetchNotifications_select ''u1'' demo_channel)
        (Reply_select None [demo_row, demo_read_row, demo_other_row]),
      Realtime_insert demo_channel demo_late_row]"

definition two_unread_world :: "unit world" where
  "two_unread_world = the (run demo_instant two_unread_events (mount local_props ()))"

text \<open>
  Row 5 is inserted after the channel is open and before the store runs the select; its
  realtime event reaches the client after the reply of the select.
\<close>

definition duplicate_events :: "unit event list" where
  "duplicate_events = session_events @
     [Resolved (FetchNotifications_select ''u1'' demo_channel) (Reply_select None [demo_row]),
      Realtime_insert demo_channel demo_row,
      Click_bell]"

definition mark_read_events :: "unit event list" where
  "mark_read_events =
     [Click_notification 5, Resolved (MarkAsRead_update 5) (Reply_update None)]"

text \<open>
  A parent that supplies the list alone, with one row in it; and a parent that supplies
  all four props, whose state is a number: its toggle function counts one, its mark-read
  function counts ten. Then a click on every control of the latter.
\<close>

definition list_with_row_props :: "unit header_props" where
  "list_with_row_props = \<lparr>role = Employee,
     externalNotifications = Some [notification.truncate demo_row],
     externalToggleNotifications = None, externalMarkNotificationAsRead = None,
     externalShowNotifications = None\<rparr>"

definition parent_owned_props :: "nat header_props" where
  "parent_owned_props = \<lparr>role = User,
     externalNotifications = Some [notification.truncate demo_row],
     externalToggleNotifications = Some Suc,
     externalMarkNotificationAsRead = Some (\<lambda>notificationId n. n + 10),
     externalShowNotifications = Some True\<rparr>"

definition parent_owned_events :: "nat event list" where
  "parent_owned_events =
     [Click_bell, Click_notification 5, Click_logout,
      Resolved Logout_signOut (Reply_signOut None), Unmount]"

section \<open>The query: what the store returns\<close>

lemma truncate_fields [simp]:
  "id_notif (notification.truncate r) = id_notif r"
  "message (notification.truncate r) = message r"
  "grievance_id (notification.truncate r) = grievance_id r"
  "is_read (notification.truncate r) = is_read r"
  "created_at (notification.truncate r) = created_at r"
  by (simp_all add: notification.truncate_def)

lemma notifications_query_subset:
  "set (notifications_query ts uid tbl) \<subseteq> {r \<in> set tbl. user_id r = uid \<and> \<not> is_read r}"
  by (auto simp: notifications_query_def limit_def order_desc_def eq_col_def dest!: in_set_takeD)

lemma notifications_query_member:
  "r \<in> set (notifications_query ts uid tbl) \<Longrightarrow>
   r \<in> set tbl \<and> user_id r = uid \<and> \<not> is_read r"
  using notifications_query_subset [of ts uid tbl] by blast

lemma notifications_query_length:
  "length (notifications_query ts uid tbl) =
     min 10 (length (filter (\<lambda>r. user_id r = uid \<and> \<not> is_read r) tbl))"
  by (simp add: notifications_query_def limit_def order_desc_def eq_col_def min.commute)

lemma order_desc_sorted:
  "sorted_wrt (\<lambda>a b. k b \<le> k a) (order_desc k rows)"
proof -
  have "sorted (map k (sort_key k rows))" by simp
  then have "sorted_wrt (\<lambda>a b. k a \<le> k b) (sort_key k rows)"
    by (simp add: sorted_map)
  then show ?thesis
    by (simp add: order_desc_def sorted_wrt_rev)
qed

lemma notifications_query_sorted:
  "sorted_wrt (\<lambda>a b. ts (created_at b) \<le> ts (created_at a)) (notifications_query ts uid tbl)"
proof -
  let ?L = "order_desc (\<lambda>r. ts (created_at r)) (eq_col is_read False (eq_col user_id uid tbl))"
  have "sorted_wrt (\<lambda>a b. ts (created_at b) \<le> ts (created_at a)) ?L"
    by (rule order_desc_sorted)
  then have "sorted_wrt (\<lambda>a b. ts (created_at b) \<le> ts (created_at a)) (take 10 ?L @ drop 10 ?L)"
    by simp
  then show ?thesis
    unfolding notifications_query_def limit_def sorted_wrt_append by blast
qed

lemma notifications_query_newest:
  assumes "r \<in> set tbl" "user_id r = uid" "\<not> is_read r"
    and "r \<notin> set (notifications_query ts uid tbl)"
    and "d \<in> set (notifications_query ts uid tbl)"
  shows "ts (created_at r) \<le> ts (created_at d)"
proof -
  let ?L = "order_desc (\<lambda>r. ts (created_at r)) (eq_col is_read False (eq_col user_id uid tbl))"
  have s: "sorted_wrt (\<lambda>a b. ts (created_at b) \<le> ts (created_at a)) (take 10 ?L @ drop 10 ?L)"
    using order_desc_sorted [of "\<lambda>r. ts (created_at r)"] by simp
  have "r \<in> set ?L"
    using assms(1-3) by (simp add: order_desc_def eq_col_def)
  then have "r \<in> set (take 10 ?L) \<union> set (drop 10 ?L)"
    by (metis append_take_drop_id set_append)
  with assms(4) have "r \<in> set (drop 10 ?L)"
    by (simp add: notifications_query_def limit_def)
  moreover have "d \<in> set (take 10 ?L)"
    using assms(5) by (simp add: notifications_query_def limit_def)
  ultimately show ?thesis
    using s unfolding sorted_wrt_append by blast
qed

lemma select_response_unread:
  assumes "data (select_response err (notifications_query ts uid tbl)) = Some d"
  shows "list_all unread d"
proof -
  from assms have "d = map notification.truncate (notifications_query ts uid tbl)"
    by (simp add: select_response_def split: option.splits)
  then show ?thesis
    using notifications_query_member [of _ ts uid tbl]
    by (simp add: list_all_iff unread_def)
qed

section \<open>Invariants of the runs\<close>

lemmas world_defs = setLocalNotifications_def setLocalShowNotifications_def await_def
  subscribe_def removeChannel_def console_error_def initialize_return_def

lemmas handler_defs = fetchNotifications_def fetchNotifications_session_def
  fetchNotifications_select_def initialize_def initialize_session_def on_insert_def
  handleMarkNotificationAsRead_def handleMarkNotificationAsRead_update_def
  handleLogout_def handleLogout_signOut_def handleToggleNotifications_def

lemmas react_defs = useEffect_callback_def run_effect_def run_cleanup_def rerender_def
  unmount_def mount_def first_render_def

lemma run_Cons_Some:
  assumes "run ts (e # es) w = Some w'"
  obtains w1 where "step ts e w = Some w1" "run ts es w1 = Some w'"
  using assms by (auto split: option.splits)

subsection \<open>Only unread entries in the local list\<close>

lemma resume_unread:
  assumes "resume ts t r w = Some w'" "list_all unread (localNotifications w)"
  shows "list_all unread (localNotifications w')"
proof (cases t)
  case (FetchNotifications_select uid ch)
  then show ?thesis
    using assms select_response_unread [of _ ts uid]
    by (cases r) (auto simp: handler_defs world_defs split: option.splits)
next
  case (MarkAsRead_update i)
  then show ?thesis
    using assms
    by (cases r) (auto simp: handler_defs world_defs list_all_iff split: option.splits if_splits)
qed (use assms in \<open>cases r; auto simp: handler_defs world_defs split: option.splits\<close>)+

lemma step_unread:
  assumes "step ts e w = Some w'" "unread_insert e" "list_all unread (localNotifications w)"
  shows "list_all unread (localNotifications w')"
proof (cases e)
  case (Resolved t r)
  then show ?thesis
    using assms resume_unread [of ts t r "w\<lparr>tasks := remove1 t (tasks w)\<rparr>" w']
    by (simp split: if_splits)
next
  case (Realtime_insert ch row)
  then show ?thesis
    using assms by (auto simp: handler_defs world_defs unread_def split: if_splits)
qed (use assms in \<open>auto simp: handler_defs world_defs react_defs
        split: if_splits option.splits cleanup.splits\<close>)

lemma run_unread:
  "run ts evs w = Some w' \<Longrightarrow> list_all unread_insert evs \<Longrightarrow>
   list_all unread (localNotifications w) \<Longrightarrow> list_all unread (localNotifications w')"
proof (induction evs arbitrary: w)
  case Nil
  then show ?case by simp
next
  case (Cons e es)
  from Cons.prems(1) obtain w1 where w1: "step ts e w = Some w1" "run ts es w1 = Some w'"
    by (rule run_Cons_Some)
  with Cons.prems have "list_all unread (localNotifications w1)"
    using step_unread [of ts e w w1] by simp
  with Cons.IH [OF w1(2)] Cons.prems show ?case by simp
qed

lemma mount_local_list: "localNotifications (mount p par) = []"
  by (simp add: react_defs handler_defs world_defs)

subsection \<open>No synchronisation while the list is supplied\<close>

lemma resume_display_only:
  assumes "resume ts t r w = Some w'" "\<not> sync_task t" "display_only w"
  shows "display_only w'"
  using assms
  by (cases t; cases r)
     (auto simp: display_only_def handler_defs world_defs list_ex_iff Let_def
        split: option.splits if_splits)

lemma remove1_display_only:
  "display_only w \<Longrightarrow> display_only (w\<lparr>tasks := remove1 t (tasks w)\<rparr>)"
  by (auto simp: display_only_def list_ex_iff dest: notin_set_remove1)

lemma step_display_only:
  assumes "step ts e w = Some w'" "list_supplied e" "display_only w"
  shows "display_only w'"
proof (cases e)
  case (Resolved t r)
  with assms have t: "t \<in> set (tasks w)"
    and r: "resume ts t r (w\<lparr>tasks := remove1 t (tasks w)\<rparr>) = Some w'"
    by (simp_all split: if_splits)
  from t assms(3) have n: "\<not> sync_task t"
    by (auto simp: display_only_def list_ex_iff)
  from resume_display_only [OF r n remove1_display_only [OF assms(3)]] show ?thesis .
next
  case (Realtime_insert ch row)
  with assms show ?thesis
    by (simp add: display_only_def split: if_splits)
next
  case (Rerender p)
  with assms show ?thesis
    by (auto simp: display_only_def react_defs world_defs list_ex_iff
        split: if_splits option.splits cleanup.splits)
qed (use assms in \<open>auto simp: display_only_def handler_defs world_defs react_defs list_ex_iff
        split: if_splits option.splits cleanup.splits\<close>)

lemma run_display_only:
  "run ts evs w = Some w' \<Longrightarrow> list_all list_supplied evs \<Longrightarrow> display_only w \<Longrightarrow>
   display_only w'"
proof (induction evs arbitrary: w)
  case Nil
  then show ?case by simp
next
  case (Cons e es)
  from Cons.prems(1) obtain w1 where w1: "step ts e w = Some w1" "run ts es w1 = Some w'"
    by (rule run_Cons_Some)
  with Cons.prems have "display_only w1"
    using step_display_only [of ts e w w1] by simp
  with Cons.IH [OF w1(2)] Cons.prems show ?case by simp
qed

lemma mount_display_only:
  "externalNotifications p \<noteq> None \<Longrightarrow> display_only (mount p par)"
  by (auto simp: display_only_def react_defs)

subsection \<open>React never holds a cleanup of the effect\<close>

lemma resume_no_cleanup:
  assumes "resume ts t r w = Some w'"
  shows "effect_cleanup w' = effect_cleanup w \<and>
         list_ex is_removeChannel (calls w') = list_ex is_removeChannel (calls w) \<and>
         set (channels w) \<subseteq> set (channels w')"
  using assms
  by (cases t; cases r)
     (auto simp: handler_defs world_defs Let_def split: option.splits if_splits)

lemma step_no_cleanup:
  assumes "step ts e w = Some w'" "effect_cleanup w = None"
    and "\<not> list_ex is_removeChannel (calls w)"
  shows "effect_cleanup w' = None \<and> \<not> list_ex is_removeChannel (calls w') \<and>
         set (channels w) \<subseteq> set (channels w')"
proof (cases e)
  case (Resolved t r)
  with assms show ?thesis
    using resume_no_cleanup [of ts t r "w\<lparr>tasks := remove1 t (tasks w)\<rparr>" w']
    by (simp split: if_splits)
qed (use assms in \<open>auto simp: handler_defs world_defs react_defs
        split: if_splits option.splits cleanup.splits\<close>)

lemma run_no_cleanup:
  "run ts evs w = Some w' \<Longrightarrow> effect_cleanup w = None \<Longrightarrow>
   \<not> list_ex is_removeChannel (calls w) \<Longrightarrow>
   effect_cleanup w' = None \<and> \<not> list_ex is_removeChannel (calls w') \<and>
   set (channels w) \<subseteq> set (channels w')"
proof (induction evs arbitrary: w)
  case Nil
  then show ?case by simp
next
  case (Cons e es)
  from Cons.prems(1) obtain w1 where w1: "step ts e w = Some w1" "run ts es w1 = Some w'"
    by (rule run_Cons_Some)
  from step_no_cleanup [OF w1(1) Cons.prems(2,3)]
  have s: "effect_cleanup w1 = None" "\<not> list_ex is_removeChannel (calls w1)"
    "set (channels w) \<subseteq> set (channels w1)" by simp_all
  from Cons.IH [OF w1(2) s(1,2)] s(3) show ?case by auto
qed

text \<open>
  Whatever happens after the mount, React holds no cleanup, \<^verbatim>\<open>removeChannel\<close> is never
  called and a channel once open stays open.
\<close>

lemma removeChannel_never_called:
  assumes "run ts evs (mount p par) = Some w"
  shows "effect_cleanup w = None \<and> \<not> list_ex is_removeChannel (calls w) \<and>
         set (channels (mount p par)) \<subseteq> set (channels w)"
proof -
  have "effect_cleanup (mount p par) = None" "\<not> list_ex is_removeChannel (calls (mount p par))"
    by (simp_all add: react_defs handler_defs world_defs)
  with run_no_cleanup [OF assms] show ?thesis by simp
qed

section \<open>Single steps of the handlers\<close>

lemma length_filter_neq:
  "length (filter (\<lambda>n. id_notif n \<noteq> i) xs) =
     length xs - length (filter (\<lambda>n. id_notif n = i) xs)"
  using sum_length_filter_compl [of "\<lambda>n. id_notif n = i" xs] by simp

lemma step_select_resolved:
  assumes "FetchNotifications_select uid ch \<in> set (tasks w)"
  shows "step ts (Resolved (FetchNotifications_select uid ch) (Reply_select err tbl)) w
     = Some (fetchNotifications_select (select_response err (notifications_query ts uid tbl)) ch
         (w\<lparr>tasks := remove1 (FetchNotifications_select uid ch) (tasks w)\<rparr>))"
  using assms by simp

lemma fetchNotifications_select_success:
  "mounted w \<Longrightarrow>
   localNotifications (fetchNotifications_select (select_response None rows) ch w)
     = map notification.truncate rows"
  by (simp add: fetchNotifications_select_def select_response_def setLocalNotifications_def
      initialize_return_def)

lemma fetchNotifications_select_error:
  "localNotifications (fetchNotifications_select (select_response (Some e) rows) ch w)
     = localNotifications w
   \<and> console (fetchNotifications_select (select_response (Some e) rows) ch w)
     = console w @ [(''Error fetching notifications:'', e)]"
  by (simp add: fetchNotifications_select_def select_response_def console_error_def
      initialize_return_def)

lemma initial_fetch_issued:
  assumes "externalNotifications p = None"
  shows "\<exists>w1. run ts [Resolved Initialize_getSession (Reply_session (Some s)),
                  Resolved (FetchNotifications_getSession (notifications_channel s))
                    (Reply_session (Some s))] (mount p par) = Some w1
        \<and> calls w1 = [Auth_getSession, Channel_subscribe (notifications_channel s),
                      Auth_getSession, Select_notifications (id_user (user s))]
        \<and> tasks w1 = [FetchNotifications_select (id_user (user s)) (notifications_channel s)]
        \<and> channels w1 = [notifications_channel s]
        \<and> mounted w1 \<and> props w1 = p"
  using assms by (simp add: react_defs handler_defs world_defs)

section \<open>Release of the realtime channel\<close>

text \<open>
  Claim C1: every activation in local mode with a session opens a realtime channel, and
  the matching deactivation (removal of the component, or a change in whether the
  external list is supplied) releases it.

  The code does not: the closure that removes the channel is the result of the promise of
  \<^verbatim>\<open>initialize()\<close>, which nobody reads; the effect itself returns nothing, so React has
  nothing to run. After the component is removed, and also after the parent starts to
  supply the list, the channel is still open, before and after the fetch has resolved.
\<close>

theorem C1_channel_kept_after_deactivation:
  "map_option channels (run demo_instant (session_events @ [Unmount]) (mount local_props ()))
     = Some [demo_channel]
   \<and> map_option mounted (run demo_instant (session_events @ [Unmount]) (mount local_props ()))
     = Some False
   \<and> map_option channels (run demo_instant (session_events @ [Rerender list_only_props])
        (mount local_props ())) = Some [demo_channel]
   \<and> map_option initialize_results
        (run demo_instant (session_events @
           [Resolved (FetchNotifications_select ''u1'' demo_channel) (Reply_select None []),
            Unmount]) (mount local_props ()))
     = Some [Some (Cleanup_removeChannel demo_channel)]
   \<and> map_option channels
        (run demo_instant (session_events @
           [Resolved (FetchNotifications_select ''u1'' demo_channel) (Reply_select None []),
            Unmount]) (mount local_props ()))
     = Some [demo_channel]"
  by code_simp

section \<open>External props and the synchronisation\<close>

text \<open>
  Claim C2: whenever any notification prop (the list, the toggle function, the mark-read
  function or the visibility flag) is supplied, the component starts no fetch, opens no
  subscription and leaves the management of the notifications wholly to the parent.

  Both parts fail. The effect tests the list alone: with both functions and the flag
  supplied and the list missing, the session is read, the channel subscribed and the select
  sent. And each handler tests its own prop alone: with the list supplied and no mark-read
  function, a click on an entry sends the update to the store, and with no toggle function
  a click on the bell sets the local flag.
\<close>

theorem C2_supplied_props_still_local_activity:
  "externalToggleNotifications handlers_only_props \<noteq> None
   \<and> externalMarkNotificationAsRead handlers_only_props \<noteq> None
   \<and> externalShowNotifications handlers_only_props \<noteq> None
   \<and> map_option calls (run demo_instant session_events (mount handlers_only_props ()))
       = Some [Auth_getSession, Channel_subscribe demo_channel, Auth_getSession,
               Select_notifications ''u1'']
   \<and> map_option channels (run demo_instant session_events (mount handlers_only_props ()))
       = Some [demo_channel]
   \<and> externalNotifications list_with_row_props \<noteq> None
   \<and> map_option calls
        (run demo_instant [Click_bell, Click_notification 5] (mount list_with_row_props ()))
       = Some [Update_is_read 5]
   \<and> map_option tasks
        (run demo_instant [Click_bell, Click_notification 5] (mount list_with_row_props ()))
       = Some [MarkAsRead_update 5]
   \<and> map_option localShowNotifications
        (run demo_instant [Click_bell, Click_notification 5] (mount list_with_row_props ()))
       = Some True"
  by (simp add: handlers_only_props_def list_with_row_props_def session_events_def
      demo_channel_def demo_session_def demo_row_def react_defs handler_defs world_defs
      notifications_channel_def notifications_def showNotifications_def)

text \<open>
  Claim C2, amended: as long as the external notification list is supplied (from the
  first render on, through every later render), no session is read, no select is sent, no
  channel is subscribed or open, none of these calls is pending, and the list on display
  is the external one. Each other concern is owned by the parent exactly when its own prop
  is supplied, in any state \<open>v\<close>: a supplied mark-read function is called with the id
  and nothing else changes (no update is sent, no local state is set), while without it
  the update is sent; a supplied toggle function is called and nothing else changes, while
  without it the local flag is flipped; a supplied visibility flag is the one on display.
\<close>

theorem C2_external_list_no_fetch_no_subscription:
  assumes "externalNotifications p \<noteq> None"
    and "list_all list_supplied evs"
    and "run ts evs (mount p par) = Some w"
  shows "channels w = [] \<and> \<not> list_ex fetch_or_subscribe (calls w)
     \<and> \<not> list_ex sync_task (tasks w)
     \<and> externalNotifications (props w) = Some (notifications w)
     \<and> (\<forall>f. externalMarkNotificationAsRead (props v) = Some f \<longrightarrow>
           handleMarkNotificationAsRead i v = v\<lparr>parent := f i (parent v)\<rparr>)
     \<and> (externalMarkNotificationAsRead (props v) = None \<longrightarrow>
           calls (handleMarkNotificationAsRead i v) = calls v @ [Update_is_read i])
     \<and> (\<forall>g. externalToggleNotifications (props v) = Some g \<longrightarrow>
           handleToggleNotifications v = v\<lparr>parent := g (parent v)\<rparr>)
     \<and> (externalToggleNotifications (props v) = None \<and> mounted v \<longrightarrow>
           localShowNotifications (handleToggleNotifications v) = (\<not> localShowNotifications v))
     \<and> (\<forall>b. externalShowNotifications (props v) = Some b \<longrightarrow> showNotifications v = b)"
proof -
  from run_display_only [OF assms(3,2) mount_display_only [OF assms(1)]]
  have "display_only w" .
  then have a: "channels w = [] \<and> \<not> list_ex fetch_or_subscribe (calls w)
     \<and> \<not> list_ex sync_task (tasks w)
     \<and> externalNotifications (props w) = Some (notifications w)"
    by (auto simp: display_only_def notifications_def)
  have b: "\<forall>f. externalMarkNotificationAsRead (props v) = Some f \<longrightarrow>
           handleMarkNotificationAsRead i v = v\<lparr>parent := f i (parent v)\<rparr>"
    by (simp add: handleMarkNotificationAsRead_def)
  have c: "externalMarkNotificationAsRead (props v) = None \<longrightarrow>
           calls (handleMarkNotificationAsRead i v) = calls v @ [Update_is_read i]"
    by (simp add: handleMarkNotificationAsRead_def await_def)
  have d: "\<forall>g. externalToggleNotifications (props v) = Some g \<longrightarrow>
           handleToggleNotifications v = v\<lparr>parent := g (parent v)\<rparr>"
    by (simp add: handleToggleNotifications_def)
  have e: "externalToggleNotifications (props v) = None \<and> mounted v \<longrightarrow>
           localShowNotifications (handleToggleNotifications v) = (\<not> localShowNotifications v)"
    by (simp add: handleToggleNotifications_def setLocalShowNotifications_def)
  have f: "\<forall>b. externalShowNotifications (props v) = Some b \<longrightarrow> showNotifications v = b"
    by (simp add: showNotifications_def)
  from a b c d e f show ?thesis by blast
qed

theorem C2_external_list_no_fetch_no_subscription_witness:
  "externalNotifications parent_owned_props \<noteq> None
   \<and> list_all list_supplied parent_owned_events
   \<and> map_option mounted (run demo_instant parent_owned_events (mount parent_owned_props 0))
       = Some False
   \<and> map_option channels (run demo_instant parent_owned_events (mount parent_owned_props 0))
       = Some []
   \<and> map_option calls (run demo_instant parent_owned_events (mount parent_owned_props 0))
       = Some [Auth_signOut]
   \<and> map_option parent (run demo_instant parent_owned_events (mount parent_owned_props 0))
       = Some 11
   \<and> map_option localNotifications
        (run demo_instant parent_owned_events (mount parent_owned_props 0)) = Some []
   \<and> map_option localShowNotifications
        (run demo_instant parent_owned_events (mount parent_owned_props 0)) = Some False
   \<and> parent (handleMarkNotificationAsRead 5 (mount parent_owned_props 0)) = 10
   \<and> calls (handleMarkNotificationAsRead 5 (mount parent_owned_props 0)) = []
   \<and> parent (handleToggleNotifications (mount parent_owned_props 0)) = 1
   \<and> \<not> localShowNotifications (handleToggleNotifications (mount parent_owned_props 0))
   \<and> showNotifications (mount parent_owned_props 0)
   \<and> calls (handleMarkNotificationAsRead 5 (mount list_with_row_props ())) = [Update_is_read 5]
   \<and> localShowNotifications (handleToggleNotifications (mount list_with_row_props ()))"
proof -
  let ?v = "mount parent_owned_props 0"
  let ?u = "mount list_with_row_props ()"
  have h1: "externalNotifications parent_owned_props \<noteq> None"
    by (simp add: parent_owned_props_def)
  have h2: "list_all list_supplied parent_owned_events"
    by (simp add: parent_owned_events_def)
  have h3: "map_option mounted (run demo_instant parent_owned_events ?v) = Some False"
    by code_simp
  have h4: "map_option calls (run demo_instant parent_owned_events ?v) = Some [Auth_signOut]"
    by code_simp
  have h5: "map_option parent (run demo_instant parent_owned_events ?v) = Some 11"
    by code_simp
  have h6: "map_option localNotifications (run demo_instant parent_owned_events ?v) = Some []"
    by code_simp
  have h7: "map_option localShowNotifications (run demo_instant parent_owned_events ?v)
      = Some False"
    by code_simp
  have p1: "externalMarkNotificationAsRead (props ?v) = Some (\<lambda>notificationId n. n + 10)"
    and p2: "externalToggleNotifications (props ?v) = Some Suc"
    and p3: "externalShowNotifications (props ?v) = Some True"
    and p4: "parent ?v = 0" and p5: "calls ?v = []" and p6: "\<not> localShowNotifications ?v"
    by (simp_all add: parent_owned_props_def react_defs)
  have q1: "externalMarkNotificationAsRead (props ?u) = None"
    and q2: "externalToggleNotifications (props ?u) = None" and q3: "mounted ?u"
    and q4: "calls ?u = []" and q5: "\<not> localShowNotifications ?u"
    by (simp_all add: list_with_row_props_def react_defs)
  from h3 obtain w where w: "run demo_instant parent_owned_events ?v = Some w"
    by auto
  note t = C2_external_list_no_fetch_no_subscription [OF h1 h2 w, where v = ?v and i = 5]
  note s = C2_external_list_no_fetch_no_subscription [OF h1 h2 w, where v = ?u and i = 5]
  from t have c: "channels w = []" by simp
  from t p1 have m: "handleMarkNotificationAsRead 5 ?v = ?v\<lparr>parent := parent ?v + 10\<rparr>"
    by simp
  from t p2 have g: "handleToggleNotifications ?v = ?v\<lparr>parent := Suc (parent ?v)\<rparr>"
    by simp
  from t p3 have b: "showNotifications ?v" by blast
  from s q1 q4 have u1: "calls (handleMarkNotificationAsRead 5 ?u) = [Update_is_read 5]"
    by simp
  from s q2 q3 q5 have u2: "localShowNotifications (handleToggleNotifications ?u)"
    by simp
  have m1: "parent (handleMarkNotificationAsRead 5 ?v) = 10"
    and m2: "calls (handleMarkNotificationAsRead 5 ?v) = []"
    unfolding m using p4 p5 by simp_all
  have g1: "parent (handleToggleNotifications ?v) = 1"
    and g2: "\<not> localShowNotifications (handleToggleNotifications ?v)"
    unfolding g using p4 p6 by simp_all
  have c': "map_option channels (run demo_instant parent_owned_events ?v) = Some []"
    using w c by simp
  from h1 h2 h3 c' h4 h5 h6 h7 m1 m2 g1 g2 b u1 u2 show ?thesis
    by (intro conjI)
qed

section \<open>Only unread notifications on display\<close>

text \<open>
  Claim C3: in local mode, after any interleaving of fetch results, realtime insert
  events and mark-read actions, the list on display has no entry with \<open>is_read\<close> true.

  This fails: the callback of the channel prepends the inserted row as it comes. A row
  inserted with \<open>is_read\<close> true, for the user of the session, is on display.
\<close>

theorem C3_read_insert_is_displayed:
  "externalNotifications local_props = None
   \<and> is_read demo_read_row
   \<and> map_option notifications
        (run demo_instant [Resolved Initialize_getSession (Reply_session (Some demo_session)),
                     Realtime_insert demo_channel demo_read_row] (mount local_props ()))
       = Some [notification.truncate demo_read_row]
   \<and> map_option (list_all unread)
        (map_option notifications
          (run demo_instant [Resolved Initialize_getSession (Reply_session (Some demo_session)),
                       Realtime_insert demo_channel demo_read_row] (mount local_props ())))
       = Some False"
  by code_simp

text \<open>
  Claim C3, amended: in local mode, in every state reached by fetch results, mark-read
  actions and realtime insert events whose rows have \<open>is_read\<close> false (and by any clicks,
  renders and replies besides), the list on display has no entry with \<open>is_read\<close> true.
\<close>

theorem C3_unread_only_when_inserts_unread:
  assumes "list_all unread_insert evs"
    and "run ts evs (mount p par) = Some w"
    and "externalNotifications (props w) = None"
  shows "list_all unread (notifications w)"
proof -
  have "list_all unread (localNotifications (mount p par))"
    by (simp add: mount_local_list)
  from run_unread [OF assms(2,1) this] assms(3) show ?thesis
    by (simp add: notifications_def)
qed

theorem C3_unread_only_when_inserts_unread_witness:
  "list_all unread_insert two_unread_events
   \<and> map_option notifications (run demo_instant two_unread_events (mount local_props ()))
       = Some [notification.truncate demo_late_row, notification.truncate demo_row]
   \<and> map_option (list_all unread)
        (map_option notifications (run demo_instant two_unread_events (mount local_props ())))
       = Some True"
proof -
  have h1: "list_all unread_insert two_unread_events"
    by code_simp
  have h2: "map_option notifications (run demo_instant two_unread_events (mount local_props ()))
       = Some [notification.truncate demo_late_row, notification.truncate demo_row]"
    by code_simp
  have h3: "map_option externalNotifications
       (map_option props (run demo_instant two_unread_events (mount local_props ()))) = Some None"
    by code_simp
  from h2 obtain w where w: "run demo_instant two_unread_events (mount local_props ()) = Some w"
    by auto
  with h3 have "externalNotifications (props w) = None"
    by simp
  from C3_unread_only_when_inserts_unread [OF h1 w this] have "list_all unread (notifications w)" .
  with w h1 h2 show ?thesis by simp
qed

section \<open>Marking a notification as read\<close>

text \<open>
  Claim C4: in local mode, for every list and every id present in it, a successful
  mark-read action leaves no entry of that id and a badge count exactly one less.

  The count is not always one less: the list can hold the same row twice (returned by the
  fetch and then delivered by the channel), and the filter removes both, so the badge goes
  from 2 to absent.
\<close>

theorem C4_duplicate_id_drops_badge_by_two:
  "map_option notifications (run demo_instant duplicate_events (mount local_props ()))
     = Some [notification.truncate demo_row, notification.truncate demo_row]
   \<and> map_option badge (run demo_instant duplicate_events (mount local_props ())) = Some (Some 2)
   \<and> map_option notifications
        (run demo_instant (duplicate_events @ mark_read_events) (mount local_props ())) = Some []
   \<and> map_option badge
        (run demo_instant (duplicate_events @ mark_read_events) (mount local_props ())) = Some None"
  by code_simp

text \<open>
  Claim C4, amended: in local mode, for every list and every id, a successful mark-read
  action leaves no entry of that id, and the length of the list on display drops by the
  number of entries with that id: by exactly one when the id occurs once in the list.
\<close>

theorem C4_mark_read_success:
  assumes "mounted w"
    and "externalNotifications (props w) = None"
    and "externalMarkNotificationAsRead (props w) = None"
  shows "i \<notin> set (map id_notif
            (notifications (handleMarkNotificationAsRead_update None i
               (handleMarkNotificationAsRead i w))))
     \<and> length (notifications (handleMarkNotificationAsRead_update None i
               (handleMarkNotificationAsRead i w)))
       = length (notifications w) - length (filter (\<lambda>n. id_notif n = i) (notifications w))
     \<and> (length (filter (\<lambda>n. id_notif n = i) (notifications w)) = 1 \<longrightarrow>
          length (notifications (handleMarkNotificationAsRead_update None i
               (handleMarkNotificationAsRead i w))) + 1 = length (notifications w))"
proof -
  let ?w' = "handleMarkNotificationAsRead_update None i (handleMarkNotificationAsRead i w)"
  have l: "notifications ?w' = filter (\<lambda>n. id_notif n \<noteq> i) (notifications w)"
    using assms
    by (simp add: notifications_def handleMarkNotificationAsRead_def
        handleMarkNotificationAsRead_update_def setLocalNotifications_def await_def)
  have c: "length (filter (\<lambda>n. id_notif n = i) (notifications w)) \<le> length (notifications w)"
    by simp
  have a: "i \<notin> set (map id_notif (notifications ?w'))"
    by (auto simp: l)
  have b: "length (notifications ?w')
       = length (notifications w) - length (filter (\<lambda>n. id_notif n = i) (notifications w))"
    by (simp add: l length_filter_neq)
  have d: "length (filter (\<lambda>n. id_notif n = i) (notifications w)) = 1 \<longrightarrow>
       length (notifications ?w') + 1 = length (notifications w)"
    using b c by arith
  from a b d show ?thesis by blast
qed

theorem C4_mark_read_success_witness:
  "mounted two_unread_world
   \<and> externalNotifications (props two_unread_world) = None
   \<and> externalMarkNotificationAsRead (props two_unread_world) = None
   \<and> map id_notif (notifications two_unread_world) = [7, 5]
   \<and> length (filter (\<lambda>n. id_notif n = 5) (notifications two_unread_world)) = 1
   \<and> 5 \<notin> set (map id_notif
            (notifications (handleMarkNotificationAsRead_update None 5
               (handleMarkNotificationAsRead 5 two_unread_world))))
   \<and> length (notifications (handleMarkNotificationAsRead_update None 5
               (handleMarkNotificationAsRead 5 two_unread_world))) + 1 = 2"
proof -
  have h1: "mounted two_unread_world" by code_simp
  have h2: "externalNotifications (props two_unread_world) = None" by code_simp
  have h3: "externalMarkNotificationAsRead (props two_unread_world) = None"
    by (simp add: two_unread_world_def two_unread_events_def session_events_def
        demo_channel_def demo_session_def local_props_def demo_row_def demo_late_row_def
        demo_read_row_def demo_other_row_def notifications_channel_def
        react_defs handler_defs world_defs select_response_def)
  have h4: "map id_notif (notifications two_unread_world) = [7, 5]" by code_simp
  have h5: "length (filter (\<lambda>n. id_notif n = 5) (notifications two_unread_world)) = 1"
    by code_simp
  have h6: "length (notifications two_unread_world) = 2"
    using h4 by (metis length_map list.size(3,4) One_nat_def Suc_1 add.commute plus_1_eq_Suc)
  from C4_mark_read_success [OF h1 h2 h3, of 5] h5 h6 h1 h2 h3 h4 show ?thesis
    by simp
qed

text \<open>
  Claim C5: in local mode, for every list and every id, when the update call fails the
  mark-read action leaves the list on display and the badge unchanged; the error is
  logged. It holds for the action run at once and for a reply that arrives in any later
  state \<open>v\<close>.
\<close>

theorem C5_failed_mark_read_keeps_list:
  assumes "externalMarkNotificationAsRead (props w) = None"
  shows "notifications (handleMarkNotificationAsRead_update (Some e) i
            (handleMarkNotificationAsRead i w)) = notifications w
     \<and> badge (handleMarkNotificationAsRead_update (Some e) i
            (handleMarkNotificationAsRead i w)) = badge w
     \<and> calls (handleMarkNotificationAsRead i w) = calls w @ [Update_is_read i]
     \<and> console (handleMarkNotificationAsRead_update (Some e) i
            (handleMarkNotificationAsRead i w))
         = console w @ [(''Error marking notification as read:'', e)]
     \<and> notifications (handleMarkNotificationAsRead_update (Some e) i v) = notifications v
     \<and> badge (handleMarkNotificationAsRead_update (Some e) i v) = badge v"
proof -
  let ?w' = "handleMarkNotificationAsRead_update (Some e) i (handleMarkNotificationAsRead i w)"
  have w': "?w' = w\<lparr>tasks := tasks w @ [MarkAsRead_update i],
                      calls := calls w @ [Update_is_read i],
                      console := console w @ [(''Error marking notification as read:'', e)]\<rparr>"
    using assms
    by (simp add: handleMarkNotificationAsRead_def handleMarkNotificationAsRead_update_def
        console_error_def await_def)
  have v': "handleMarkNotificationAsRead_update (Some e) i v
       = v\<lparr>console := console v @ [(''Error marking notification as read:'', e)]\<rparr>"
    by (simp add: handleMarkNotificationAsRead_update_def console_error_def)
  have n: "notifications ?w' = notifications w"
    unfolding w' by (simp add: notifications_def split: option.splits)
  have m: "notifications (handleMarkNotificationAsRead_update (Some e) i v) = notifications v"
    unfolding v' by (simp add: notifications_def split: option.splits)
  have c: "calls (handleMarkNotificationAsRead i w) = calls w @ [Update_is_read i]"
    using assms by (simp add: handleMarkNotificationAsRead_def await_def)
  have k: "console ?w' = console w @ [(''Error marking notification as read:'', e)]"
    unfolding w' by simp
  from n m c k show ?thesis
    by (simp add: badge_def)
qed

theorem C5_failed_mark_read_keeps_list_witness:
  "externalMarkNotificationAsRead (props two_unread_world) = None
   \<and> map id_notif (notifications two_unread_world) = [7, 5]
   \<and> map_option notifications
        (run demo_instant [Click_bell, Click_notification 5,
                     Resolved (MarkAsRead_update 5) (Reply_update (Some ''timeout''))]
           two_unread_world)
       = Some (notifications two_unread_world)
   \<and> notifications (handleMarkNotificationAsRead_update (Some ''timeout'') 5
            (handleMarkNotificationAsRead 5 two_unread_world)) = notifications two_unread_world
   \<and> badge (handleMarkNotificationAsRead_update (Some ''timeout'') 5
            (handleMarkNotificationAsRead 5 two_unread_world)) = Some 2"
proof -
  have h: "externalMarkNotificationAsRead (props two_unread_world) = None"
    by (simp add: two_unread_world_def two_unread_events_def session_events_def
        demo_channel_def demo_session_def local_props_def demo_row_def demo_late_row_def
        demo_read_row_def demo_other_row_def notifications_channel_def
        react_defs handler_defs world_defs select_response_def)
  have h4: "map id_notif (notifications two_unread_world) = [7, 5]" by code_simp
  have h5: "map_option notifications
        (run demo_instant [Click_bell, Click_notification 5,
                     Resolved (MarkAsRead_update 5) (Reply_update (Some ''timeout''))]
           two_unread_world)
       = Some (notifications two_unread_world)" by code_simp
  have h6: "badge two_unread_world = Some 2" by code_simp
  note t = C5_failed_mark_read_keeps_list
    [OF h, where e = "''timeout''" and i = 5 and v = two_unread_world]
  from t have a: "notifications (handleMarkNotificationAsRead_update (Some ''timeout'') 5
      (handleMarkNotificationAsRead 5 two_unread_world)) = notifications two_unread_world"
    by (rule conjunct1)
  from t h6 have b: "badge (handleMarkNotificationAsRead_update (Some ''timeout'') 5
      (handleMarkNotificationAsRead 5 two_unread_world)) = Some 2"
    by simp
  from h h4 h5 a b show ?thesis
    by (intro conjI)
qed

section \<open>Logout\<close>

text \<open>
  Claim C6: whatever the sign-out call resolves to (no error, or an error), the logout
  action then navigates to the root route and requests a refresh; an error is logged and
  does not prevent the navigation. The reply is accepted as soon as the call is pending.
\<close>

theorem C6_logout_always_navigates:
  "calls (handleLogout w) = calls w @ [Auth_signOut]
   \<and> router (handleLogout_signOut r (handleLogout w)) = router w @ [Push ''/'', Refresh]
   \<and> router (handleLogout_signOut r v) = router v @ [Push ''/'', Refresh]
   \<and> console (handleLogout_signOut r v)
       = console v @ (case r of None \<Rightarrow> [] | Some e \<Rightarrow> [(''Logout error:'', e)])
   \<and> step ts (Resolved Logout_signOut (Reply_signOut r)) (handleLogout w)
       = Some (handleLogout_signOut r ((handleLogout w)\<lparr>tasks := remove1 Logout_signOut (tasks (handleLogout w))\<rparr>))"
  by (simp add: handleLogout_def handleLogout_signOut_def console_error_def await_def Let_def
      split: option.splits)

section \<open>The initial fetch\<close>

text \<open>
  Claim C7: in local mode with a session, the initial fetch selects the rows of the
  notification table of the user of the session with \<open>is_read\<close> false, ordered by
  \<open>created_at\<close> descending, at most 10 of them; on success the local list becomes that
  result, on error the local list is unchanged and the error is logged.

  The first conjunct is the activation up to the select; the next four say what the query
  returns on any table (whole rows of the table that match, newest first, ten or all of
  them, and no row left out is newer than a row returned); the last two are the reply in
  any mounted state where the select is pending.
\<close>

theorem C7_initial_fetch:
  assumes "externalNotifications p = None"
    and "mounted w"
    and "FetchNotifications_select (id_user (user s)) ch \<in> set (tasks w)"
  shows "(\<exists>w1. run ts [Resolved Initialize_getSession (Reply_session (Some s)),
                  Resolved (FetchNotifications_getSession (notifications_channel s))
                    (Reply_session (Some s))] (mount p par) = Some w1
        \<and> calls w1 = [Auth_getSession, Channel_subscribe (notifications_channel s),
                      Auth_getSession, Select_notifications (id_user (user s))]
        \<and> tasks w1 = [FetchNotifications_select (id_user (user s)) (notifications_channel s)]
        \<and> channels w1 = [notifications_channel s]
        \<and> mounted w1 \<and> props w1 = p)
     \<and> (\<forall>r \<in> set (notifications_query ts (id_user (user s)) tbl).
           r \<in> set tbl \<and> user_id r = id_user (user s) \<and> \<not> is_read r)
     \<and> sorted_wrt (\<lambda>a b. ts (created_at b) \<le> ts (created_at a))
           (notifications_query ts (id_user (user s)) tbl)
     \<and> length (notifications_query ts (id_user (user s)) tbl)
         = min 10 (length (filter (\<lambda>r. user_id r = id_user (user s) \<and> \<not> is_read r) tbl))
     \<and> (\<forall>r d. r \<in> set tbl \<and> user_id r = id_user (user s) \<and> \<not> is_read r
             \<and> r \<notin> set (notifications_query ts (id_user (user s)) tbl)
             \<and> d \<in> set (notifications_query ts (id_user (user s)) tbl)
           \<longrightarrow> ts (created_at r) \<le> ts (created_at d))
     \<and> (\<exists>w'. step ts (Resolved (FetchNotifications_select (id_user (user s)) ch)
                         (Reply_select None tbl)) w = Some w'
           \<and> localNotifications w'
               = map notification.truncate (notifications_query ts (id_user (user s)) tbl))
     \<and> (\<exists>w'. step ts (Resolved (FetchNotifications_select (id_user (user s)) ch)
                         (Reply_select (Some e) tbl)) w = Some w'
           \<and> localNotifications w' = localNotifications w
           \<and> console w' = console w @ [(''Error fetching notifications:'', e)])"
proof -
  let ?uid = "id_user (user s)"
  let ?w0 = "w\<lparr>tasks := remove1 (FetchNotifications_select ?uid ch) (tasks w)\<rparr>"
  have m: "mounted ?w0" using assms(2) by simp
  have ok: "\<exists>w'. step ts (Resolved (FetchNotifications_select ?uid ch) (Reply_select None tbl)) w
               = Some w'
           \<and> localNotifications w' = map notification.truncate (notifications_query ts ?uid tbl)"
    unfolding step_select_resolved [OF assms(3)]
    using fetchNotifications_select_success [OF m] by simp
  have err: "\<exists>w'. step ts (Resolved (FetchNotifications_select ?uid ch)
                 (Reply_select (Some e) tbl)) w = Some w'
           \<and> localNotifications w' = localNotifications w
           \<and> console w' = console w @ [(''Error fetching notifications:'', e)]"
    unfolding step_select_resolved [OF assms(3)]
    using fetchNotifications_select_error [of e _ ch ?w0] by simp
  have mem: "\<forall>r \<in> set (notifications_query ts ?uid tbl).
           r \<in> set tbl \<and> user_id r = ?uid \<and> \<not> is_read r"
    using notifications_query_member by blast
  have new: "\<forall>r d. r \<in> set tbl \<and> user_id r = ?uid \<and> \<not> is_read r
             \<and> r \<notin> set (notifications_query ts ?uid tbl)
             \<and> d \<in> set (notifications_query ts ?uid tbl)
           \<longrightarrow> ts (created_at r) \<le> ts (created_at d)"
    using notifications_query_newest by blast
  from initial_fetch_issued [OF assms(1)] mem notifications_query_sorted
    notifications_query_length new ok err
  show ?thesis by blast
qed

theorem C7_initial_fetch_witness:
  "externalNotifications local_props = None
   \<and> mounted fetch_pending_world
   \<and> FetchNotifications_select (id_user (user demo_session)) demo_channel
       \<in> set (tasks fetch_pending_world)
   \<and> notifications_query demo_instant ''u1'' [demo_row, demo_read_row, demo_late_row, demo_other_row]
       = [demo_late_row, demo_row]
   \<and> (\<exists>w'. step demo_instant (Resolved (FetchNotifications_select ''u1'' demo_channel)
               (Reply_select None [demo_row, demo_read_row, demo_late_row, demo_other_row]))
             fetch_pending_world = Some w'
          \<and> localNotifications w'
              = [notification.truncate demo_late_row, notification.truncate demo_row])
   \<and> (\<exists>w'. step demo_instant (Resolved (FetchNotifications_select ''u1'' demo_channel)
               (Reply_select (Some ''offline'') []))
             fetch_pending_world = Some w'
          \<and> localNotifications w' = []
          \<and> console w' = [(''Error fetching notifications:'', ''offline'')])"
proof -
  have h1: "externalNotifications local_props = None" by code_simp
  have h2: "mounted fetch_pending_world" by code_simp
  have h3: "FetchNotifications_select (id_user (user demo_session)) demo_channel
       \<in> set (tasks fetch_pending_world)" by code_simp
  have u: "id_user (user demo_session) = ''u1''" by code_simp
  have q: "notifications_query demo_instant ''u1''
        [demo_row, demo_read_row, demo_late_row, demo_other_row] = [demo_late_row, demo_row]"
    by code_simp
  have l: "localNotifications fetch_pending_world = []" by code_simp
  have c: "console fetch_pending_world = []" by code_simp
  note t = C7_initial_fetch [OF h1 h2 h3, where ts = demo_instant and par = "()"
      and tbl = "[demo_row, demo_read_row, demo_late_row, demo_other_row]" and e = "''offline''"]
  note t2 = C7_initial_fetch [OF h1 h2 h3, where ts = demo_instant and par = "()"
      and tbl = "[]" and e = "''offline''"]
  from t have a: "\<exists>w'. step demo_instant (Resolved (FetchNotifications_select ''u1'' demo_channel)
               (Reply_select None [demo_row, demo_read_row, demo_late_row, demo_other_row]))
             fetch_pending_world = Some w'
          \<and> localNotifications w'
              = [notification.truncate demo_late_row, notification.truncate demo_row]"
    unfolding u q by simp
  from t2 have b: "\<exists>w'. step demo_instant (Resolved (FetchNotifications_select ''u1'' demo_channel)
               (Reply_select (Some ''offline'') []))
             fetch_pending_world = Some w'
          \<and> localNotifications w' = []
          \<and> console w' = [(''Error fetching notifications:'', ''offline'')]"
    unfolding u l c by simp
  from h1 h2 h3 q a b show ?thesis
    by (intro conjI)
qed

text \<open>
  Claim C8: in local mode, a realtime insert event delivered before the initial fetch
  resolves is prepended to the local list, and the fetch that resolves next overwrites the
  whole list, so the prepended entry is gone whenever it is not among the rows of the
  fetch.
\<close>

theorem C8_fetch_overwrites_earlier_insert:
  assumes "mounted w"
    and "ch \<in> set (channels w)"
    and "filter_opt ch = ''user_id=eq.'' @ user_id row"
    and "FetchNotifications_select uid ch' \<in> set (tasks w)"
  shows "\<exists>w1 w2. step ts (Realtime_insert ch row) w = Some w1
     \<and> localNotifications w1 = notification.truncate row # localNotifications w
     \<and> step ts (Resolved (FetchNotifications_select uid ch') (Reply_select None tbl)) w1 = Some w2
     \<and> localNotifications w2 = map notification.truncate (notifications_query ts uid tbl)
     \<and> (notification.truncate row \<notin> set (map notification.truncate (notifications_query ts uid tbl))
          \<longrightarrow> notification.truncate row \<notin> set (localNotifications w2))"
proof -
  let ?w1 = "on_insert row w"
  have s1: "step ts (Realtime_insert ch row) w = Some ?w1"
    using assms(2,3) by simp
  have l1: "localNotifications ?w1 = notification.truncate row # localNotifications w"
    using assms(1) by (simp add: on_insert_def setLocalNotifications_def)
  have m1: "mounted ?w1" and t1: "FetchNotifications_select uid ch' \<in> set (tasks ?w1)"
    using assms(1,4) by (simp_all add: on_insert_def setLocalNotifications_def)
  let ?w2 = "fetchNotifications_select (select_response None (notifications_query ts uid tbl)) ch'
         (?w1\<lparr>tasks := remove1 (FetchNotifications_select uid ch') (tasks ?w1)\<rparr>)"
  have s2: "step ts (Resolved (FetchNotifications_select uid ch') (Reply_select None tbl)) ?w1
      = Some ?w2"
    by (rule step_select_resolved [OF t1])
  have "mounted (?w1\<lparr>tasks := remove1 (FetchNotifications_select uid ch') (tasks ?w1)\<rparr>)"
    using m1 by simp
  from fetchNotifications_select_success [OF this]
  have l2: "localNotifications ?w2 = map notification.truncate (notifications_query ts uid tbl)" .
  from s1 l1 s2 l2 show ?thesis by metis
qed

theorem C8_fetch_overwrites_earlier_insert_witness:
  "mounted fetch_pending_world
   \<and> demo_channel \<in> set (channels fetch_pending_world)
   \<and> filter_opt demo_channel = ''user_id=eq.'' @ user_id demo_late_row
   \<and> FetchNotifications_select ''u1'' demo_channel \<in> set (tasks fetch_pending_world)
   \<and> map_option localNotifications
        (run demo_instant [Realtime_insert demo_channel demo_late_row] fetch_pending_world)
       = Some [notification.truncate demo_late_row]
   \<and> (\<exists>w1 w2. step demo_instant (Realtime_insert demo_channel demo_late_row) fetch_pending_world
          = Some w1
        \<and> step demo_instant (Resolved (FetchNotifications_select ''u1'' demo_channel)
             (Reply_select None [demo_row])) w1 = Some w2
        \<and> localNotifications w2 = [notification.truncate demo_row]
        \<and> notification.truncate demo_late_row \<notin> set (localNotifications w2))"
proof -
  have h1: "mounted fetch_pending_world" by code_simp
  have h2: "demo_channel \<in> set (channels fetch_pending_world)" by code_simp
  have h3: "filter_opt demo_channel = ''user_id=eq.'' @ user_id demo_late_row" by code_simp
  have h4: "FetchNotifications_select ''u1'' demo_channel \<in> set (tasks fetch_pending_world)"
    by code_simp
  have h5: "map_option localNotifications
        (run demo_instant [Realtime_insert demo_channel demo_late_row] fetch_pending_world)
       = Some [notification.truncate demo_late_row]" by code_simp
  have q: "map notification.truncate (notifications_query demo_instant ''u1'' [demo_row])
       = [notification.truncate demo_row]" by code_simp
  have n: "notification.truncate demo_late_row \<noteq> notification.truncate demo_row" by code_simp
  from C8_fetch_overwrites_earlier_insert [OF h1 h2 h3 h4, of demo_instant "[demo_row]"]
  obtain w1 w2 where w:
    "step demo_instant (Realtime_insert demo_channel demo_late_row) fetch_pending_world = Some w1"
    "step demo_instant (Resolved (FetchNotifications_select ''u1'' demo_channel)
             (Reply_select None [demo_row])) w1 = Some w2"
    "localNotifications w2 = map notification.truncate (notifications_query demo_instant ''u1'' [demo_row])"
    by blast
  from w(3) q n have "localNotifications w2 = [notification.truncate demo_row]"
    "notification.truncate demo_late_row \<notin> set (localNotifications w2)"
    by simp_all
  with w(1,2) have "\<exists>w1 w2. step demo_instant (Realtime_insert demo_channel demo_late_row)
          fetch_pending_world = Some w1
        \<and> step demo_instant (Resolved (FetchNotifications_select ''u1'' demo_channel)
             (Reply_select None [demo_row])) w1 = Some w2
        \<and> localNotifications w2 = [notification.truncate demo_row]
        \<and> notification.truncate demo_late_row \<notin> set (localNotifications w2)"
    by blast
  with h1 h2 h3 h4 h5 show ?thesis
    by (intro conjI)
qed

section \<open>The dropdown\<close>

text \<open>
  Claim C9: in local mode, one toggle flips the visibility of the dropdown, two toggles
  restore it, and the initial state is hidden. Each click is handled after the render of
  the click before it, so the handler reads the current state.
\<close>

theorem C9_toggle_twice:
  assumes "mounted w"
    and "externalToggleNotifications (props w) = None"
    and "externalShowNotifications (props w) = None"
  shows "showNotifications (handleToggleNotifications w) = (\<not> showNotifications w)
     \<and> showNotifications (handleToggleNotifications (handleToggleNotifications w))
         = showNotifications w
     \<and> \<not> localShowNotifications (mount p par)
     \<and> (externalShowNotifications p = None \<longrightarrow> \<not> showNotifications (mount p par))"
  using assms
  by (simp add: showNotifications_def handleToggleNotifications_def
      setLocalShowNotifications_def react_defs initialize_def await_def)

theorem C9_toggle_twice_witness:
  "mounted (mount local_props ())
   \<and> externalToggleNotifications (props (mount local_props ())) = None
   \<and> externalShowNotifications (props (mount local_props ())) = None
   \<and> \<not> showNotifications (mount local_props ())
   \<and> showNotifications (handleToggleNotifications (mount local_props ()))
   \<and> \<not> showNotifications (handleToggleNotifications (handleToggleNotifications
          (mount local_props ())))
   \<and> map_option showNotifications (run demo_instant [Click_bell] (mount local_props ())) = Some True
   \<and> map_option showNotifications (run demo_instant [Click_bell, Click_bell] (mount local_props ()))
       = Some False"
proof -
  have h1: "mounted (mount local_props ())" by code_simp
  have h2: "externalToggleNotifications (props (mount local_props ())) = None"
    by (simp add: local_props_def react_defs handler_defs world_defs)
  have h3: "externalShowNotifications (props (mount local_props ())) = None" by code_simp
  have h4: "externalShowNotifications local_props = None" by code_simp
  have h5: "map_option showNotifications (run demo_instant [Click_bell] (mount local_props ()))
       = Some True" by code_simp
  have h6: "map_option showNotifications
       (run demo_instant [Click_bell, Click_bell] (mount local_props ())) = Some False" by code_simp
  from C9_toggle_twice [OF h1 h2 h3, of local_props "()"] h1 h2 h3 h4 h5 h6 show ?thesis
    by simp
qed

text \<open>
  Claim C10: the list on display and the visibility flag are sourced independently. The
  list is the external one exactly when one is supplied (also when it is empty), else the
  local list; the flag is the external one exactly when it is defined (also when it is
  false), else the local one. Neither depends on the source of the other, so a mixed mode
  exists.
\<close>

theorem C10_list_and_flag_sourced_independently:
  "notifications (w\<lparr>props := p\<lparr>externalNotifications := Some l\<rparr>\<rparr>) = l
   \<and> notifications (w\<lparr>props := p\<lparr>externalNotifications := Some []\<rparr>\<rparr>) = []
   \<and> notifications (w\<lparr>props := p\<lparr>externalNotifications := None\<rparr>\<rparr>) = localNotifications w
   \<and> showNotifications (w\<lparr>props := p\<lparr>externalShowNotifications := Some b\<rparr>\<rparr>) = b
   \<and> showNotifications (w\<lparr>props := p\<lparr>externalShowNotifications := None\<rparr>\<rparr>)
       = localShowNotifications w
   \<and> notifications (w\<lparr>props := (props w)\<lparr>externalShowNotifications := x\<rparr>,
                       localShowNotifications := c\<rparr>) = notifications w
   \<and> showNotifications (w\<lparr>props := (props w)\<lparr>externalNotifications := y\<rparr>,
                       localNotifications := m\<rparr>) = showNotifications w"
  by (simp add: notifications_def showNotifications_def split: option.splits)

theorem C10_mixed_mode_witness:
  "notifications (two_unread_world\<lparr>props := flag_only_props\<rparr>)
     = localNotifications two_unread_world
   \<and> showNotifications (two_unread_world\<lparr>props := flag_only_props\<rparr>) = True
   \<and> localShowNotifications two_unread_world = False
   \<and> notifications (two_unread_world\<lparr>props := list_only_props\<rparr>) = []
   \<and> length (localNotifications two_unread_world) = 2
   \<and> showNotifications (two_unread_world\<lparr>props := list_only_props\<rparr>)
       = localShowNotifications two_unread_world"
proof -
  have f: "flag_only_props = flag_only_props\<lparr>externalNotifications := None\<rparr>"
    "flag_only_props = flag_only_props\<lparr>externalShowNotifications := Some True\<rparr>"
    "list_only_props = list_only_props\<lparr>externalNotifications := Some []\<rparr>"
    "list_only_props = list_only_props\<lparr>externalShowNotifications := None\<rparr>"
    by (simp_all add: flag_only_props_def list_only_props_def)
  have h1: "localShowNotifications two_unread_world = False" by code_simp
  have h2: "length (localNotifications two_unread_world) = 2" by code_simp
  from C10_list_and_flag_sourced_independently [where w = two_unread_world and p = flag_only_props]
    C10_list_and_flag_sourced_independently [where w = two_unread_world and p = list_only_props]
    f h1 h2
  show ?thesis
    by metis
qed

end
